theory Spec2Isabelle
  imports Main "HOL-Library.Word"
begin

unbundle bit_operations_syntax

section \<open>MCP2210 Configurator: configuration orchestration and bit rate search\<close>

text \<open>
  A shallow embedding of the member functions of \<^verbatim>\<open>ConfiguratorWindow\<close>
  (\<^verbatim>\<open>src/configuratorwindow.cpp\<close>) that read, write and verify the device
  configuration and that search for the nearest compatible SPI bit rate.

  The window object is a record of its data members; every member function takes the
  window and returns the updated window (a data member \<^verbatim>\<open>name_\<close> is the
  field \<open>name\<close>). The device object \<^verbatim>\<open>mcp2210_\<close> belongs
  to class \<^verbatim>\<open>MCP2210\<close>, whose implementation is not part of the translated file:
  the class is a record of its member functions and constants over an arbitrary device
  state \<open>'d\<close>, passed to every function that talks to the device. A member function
  that takes \<^verbatim>\<open>int &errcnt, QString &errstr\<close> receives the pair and returns
  the pair it leaves behind.
\<close>

subsection \<open>Strings\<close>

text \<open>
  A \<^verbatim>\<open>QString\<close> is a sequence of 16-bit code units. \<open>qs\<close> embeds an ASCII
  literal; \<^verbatim>\<open>tr\<close> is taken as the identity on the source text (no translation
  catalogue is installed), so the plural form selected by its count argument is the
  source text itself.
\<close>

type_synonym u8 = "8 word"
type_synonym u16 = "16 word"
type_synonym u32 = "32 word"
type_synonym QString = "16 word list"

definition qs :: "string \<Rightarrow> QString" where
  "qs s = map of_char s"

definition newline :: "16 word" where
  "newline = 10"

definition endash :: "16 word" where
  "endash = 8211"

definition space :: "16 word" where
  "space = 32"

text \<open>\<^verbatim>\<open>QString::chop(n)\<close>: removes \<open>n\<close> code units from the end; the string
  becomes empty when \<open>n\<close> is at least its length.\<close>

definition chop :: "nat \<Rightarrow> QString \<Rightarrow> QString" where
  "chop n s = take (length s - n) s"

text \<open>\<^verbatim>\<open>QString::replace(before, after)\<close> for a \<^verbatim>\<open>before\<close> of one code
  unit: every occurrence is replaced.\<close>

definition replace :: "16 word \<Rightarrow> QString \<Rightarrow> QString \<Rightarrow> QString" where
  "replace before after s = concat (map (\<lambda>c. if c = before then after else [c]) s)"

subsection \<open>Configuration data\<close>

record USBParameters =
  vid :: u16
  pid :: u16
  maxpow :: u8
  powmode :: u8
  usb_rmwakeup :: bool

record ChipSettings =
  gp0 :: u8
  gp1 :: u8
  gp2 :: u8
  gp3 :: u8
  gp4 :: u8
  gp5 :: u8
  gp6 :: u8
  gp7 :: u8
  gp8 :: u8
  gpdir :: u8
  gpout :: u8
  rmwakeup :: bool
  intmode :: u8
  nrelspi :: bool

record SPISettings =
  nbytes :: u16
  bitrate :: u32
  mode :: u8
  actcs :: u8
  idlcs :: u8
  csdtdly :: u16
  dtcsdly :: u16
  itbytdly :: u16

text \<open>
  \<^verbatim>\<open>struct Configuration\<close>. Its \<^verbatim>\<open>operator ==\<close> and \<^verbatim>\<open>operator !=\<close>,
  and those of the three settings structures, are declared outside the translated file;
  they are field-by-field comparisons, which is equality of records.
\<close>

record Configuration =
  manufacturer :: QString
  product_desc :: QString
  usbParameters :: USBParameters
  chipSettings :: ChipSettings
  spiSettings :: SPISettings

subsection \<open>The device class\<close>

type_synonym errs = "int \<times> QString"

record 'd MCP2210 =
  PCGPIO :: u8
  PCFUNC :: u8
  ACNONE :: u8
  disconnected :: "'d \<Rightarrow> bool"
  isOpen :: "'d \<Rightarrow> bool"
  close_dev :: "'d \<Rightarrow> 'd"
  getSPISettings :: "'d \<Rightarrow> errs \<Rightarrow> SPISettings \<times> 'd \<times> errs"
  configureSPISettings :: "SPISettings \<Rightarrow> 'd \<Rightarrow> errs \<Rightarrow> 'd \<times> errs"
  configureChipSettings :: "ChipSettings \<Rightarrow> 'd \<Rightarrow> errs \<Rightarrow> 'd \<times> errs"
  getManufacturerDesc :: "'d \<Rightarrow> errs \<Rightarrow> QString \<times> 'd \<times> errs"
  getProductDesc :: "'d \<Rightarrow> errs \<Rightarrow> QString \<times> 'd \<times> errs"
  getUSBParameters :: "'d \<Rightarrow> errs \<Rightarrow> USBParameters \<times> 'd \<times> errs"
  getNVChipSettings :: "'d \<Rightarrow> errs \<Rightarrow> ChipSettings \<times> 'd \<times> errs"
  getNVSPISettings :: "'d \<Rightarrow> errs \<Rightarrow> SPISettings \<times> 'd \<times> errs"
  getAccessControlMode :: "'d \<Rightarrow> errs \<Rightarrow> u8 \<times> 'd \<times> errs"
  writeManufacturerDesc :: "QString \<Rightarrow> 'd \<Rightarrow> errs \<Rightarrow> 'd \<times> errs"
  writeProductDesc :: "QString \<Rightarrow> 'd \<Rightarrow> errs \<Rightarrow> 'd \<times> errs"
  writeUSBParameters :: "USBParameters \<Rightarrow> 'd \<Rightarrow> errs \<Rightarrow> 'd \<times> errs"
  writeNVChipSettings :: "ChipSettings \<Rightarrow> u8 \<Rightarrow> QString \<Rightarrow> 'd \<Rightarrow> errs \<Rightarrow> 'd \<times> errs"

text \<open>Namespace \<^verbatim>\<open>MCP2210Limits\<close> (\<^verbatim>\<open>mcp2210limits.h\<close>, not part of the
  translated file): the two limits the bit rate search reads.\<close>

record MCP2210Limits =
  BITRATE_MIN :: u32
  BITRATE_MAX :: u32

subsection \<open>The window\<close>

text \<open>
  The widgets the translated functions read. \<open>comboBoxGP ui k\<close> is the current index
  of \<^verbatim>\<open>comboBoxGP\<close>\<open>k\<close> and \<open>checkBoxGPDefaultValue ui k\<close> the state of
  \<^verbatim>\<open>checkBoxGP\<close>\<open>k\<close>\<^verbatim>\<open>DefaultValue\<close>. The display functions only write
  widgets, and no translated function reads a widget after a display function ran, so
  they are left out.
\<close>

record Ui =
  lineEditManufacturer :: QString
  lineEditProduct :: QString
  lineEditVID :: QString
  lineEditPID :: QString
  lineEditMaxPowerHex :: QString
  comboBoxPowerMode :: int
  checkBoxRemoteWakeUpCapable :: bool
  comboBoxGP :: "nat \<Rightarrow> int"
  checkBoxGPDefaultValue :: "nat \<Rightarrow> bool"
  checkBoxRemoteWakeUp :: bool
  comboBoxInterruptMode :: int
  checkBoxSPIBusCaptive :: bool
  checkBoxApplyImmediately :: bool

record 'd ConfiguratorWindow =
  mcp2210 :: 'd
  err :: bool
  errmsg :: QString
  deviceConfiguration :: Configuration
  editedConfiguration :: Configuration
  accessMode :: u8
  viewEnabled :: bool
  ui :: Ui


subsection \<open>validateOperation\<close>

definition msg_disconnected :: QString where
  "msg_disconnected =
     qs ''Device disconnected.'' @ [newline, newline] @ qs ''Please reconnect it and try again.''"

definition msg_failed :: "QString \<Rightarrow> QString \<Rightarrow> QString" where
  "msg_failed operation errstr =
     qs ''Failed to '' @ operation
     @ qs ''. The operation returned the following error(s):''
     @ [newline, endash, space] @ errstr"

definition validateOperation ::
  "'d MCP2210 \<Rightarrow> QString \<Rightarrow> int \<Rightarrow> QString \<Rightarrow> 'd ConfiguratorWindow \<Rightarrow> 'd ConfiguratorWindow" where
  "validateOperation mcp operation errcnt errstr w =
     (if errcnt > 0 then
        (let w1 = w\<lparr>err := True\<rparr> in
         if disconnected mcp (mcp2210 w1) then
           w1\<lparr>errmsg := msg_disconnected\<rparr>
         else
           (let errstr1 = chop 1 errstr in
            w1\<lparr>errmsg :=
                 msg_failed operation (replace newline [newline, endash, space] errstr1)\<rparr>))
      else w)"

subsection \<open>Tasks\<close>







subsection \<open>readDeviceConfiguration and verifyConfiguration\<close>

text \<open>Each getter's result is stored in its field of \<open>deviceConfiguration\<close> as soon as
  the getter returns; the error count is looked at once, after the sixth call.\<close>

definition readDeviceConfiguration :: "'d MCP2210 \<Rightarrow> 'd ConfiguratorWindow \<Rightarrow> 'd ConfiguratorWindow" where
  "readDeviceConfiguration mcp w =
     (let (m, d1, e1) = getManufacturerDesc mcp (mcp2210 w) (0, []);
          w1 = w\<lparr>mcp2210 := d1, deviceConfiguration := (deviceConfiguration w)\<lparr>manufacturer := m\<rparr>\<rparr>;
          (p, d2, e2) = getProductDesc mcp (mcp2210 w1) e1;
          w2 = w1\<lparr>mcp2210 := d2, deviceConfiguration := (deviceConfiguration w1)\<lparr>product_desc := p\<rparr>\<rparr>;
          (u, d3, e3) = getUSBParameters mcp (mcp2210 w2) e2;
          w3 = w2\<lparr>mcp2210 := d3, deviceConfiguration := (deviceConfiguration w2)\<lparr>usbParameters := u\<rparr>\<rparr>;
          (c, d4, e4) = getNVChipSettings mcp (mcp2210 w3) e3;
          w4 = w3\<lparr>mcp2210 := d4, deviceConfiguration := (deviceConfiguration w3)\<lparr>chipSettings := c\<rparr>\<rparr>;
          (s, d5, e5) = getNVSPISettings mcp (mcp2210 w4) e4;
          w5 = w4\<lparr>mcp2210 := d5, deviceConfiguration := (deviceConfiguration w4)\<lparr>spiSettings := s\<rparr>\<rparr>;
          (a, d6, e6) = getAccessControlMode mcp (mcp2210 w5) e5;
          w6 = w5\<lparr>mcp2210 := d6, accessMode := a\<rparr>
      in validateOperation mcp (qs ''read device configuration'') (fst e6) (snd e6) w6)"

definition verifyConfiguration :: "'d MCP2210 \<Rightarrow> 'd ConfiguratorWindow \<Rightarrow> 'd ConfiguratorWindow" where
  "verifyConfiguration mcp w =
     (let w1 = readDeviceConfiguration mcp w in
      if \<not> err w1 then
        (if deviceConfiguration w1 \<noteq> editedConfiguration w1 then
           w1\<lparr>err := True, errmsg := qs ''Failed verification.''\<rparr>
         else w1)
      else w1)"

subsection \<open>prepareTaskList\<close>

definition prepareTaskList :: "'d ConfiguratorWindow \<Rightarrow> QString list" where
  "prepareTaskList w =
     (let tasks = [];
          tasks = (if manufacturer (editedConfiguration w) \<noteq> manufacturer (deviceConfiguration w)
                   then tasks @ [qs ''writeManufacturerDesc''] else tasks);
          tasks = (if product_desc (editedConfiguration w) \<noteq> product_desc (deviceConfiguration w)
                   then tasks @ [qs ''writeProductDesc''] else tasks);
          tasks = (if usbParameters (editedConfiguration w) \<noteq> usbParameters (deviceConfiguration w)
                   then tasks @ [qs ''writeUSBParameters''] else tasks);
          tasks = (if chipSettings (editedConfiguration w) \<noteq> chipSettings (deviceConfiguration w)
                   then tasks @ [qs ''writeChipSettings''] else tasks);
          tasks = tasks @ [qs ''verifyConfiguration'']
      in if checkBoxApplyImmediately (ui w) then
           (let tasks = (if chipSettings (editedConfiguration w) \<noteq> chipSettings (deviceConfiguration w)
                         then tasks @ [qs ''applyChipSettings''] else tasks);
                tasks = (if spiSettings (editedConfiguration w) \<noteq> spiSettings (deviceConfiguration w)
                         then tasks @ [qs ''applySPISettings''] else tasks)
            in tasks)
         else tasks)"

subsection \<open>configureDevice\<close>









subsection \<open>getEditedConfiguration\<close>

text \<open>
  \<open>toUShort\<close> is \<^verbatim>\<open>QString::toUShort(nullptr, base)\<close> of the Qt library, taken as
  a parameter. \<open>gp_of_index\<close> is the expression
  \<^verbatim>\<open>static_cast<quint8>(index > 0 ? index - 1 : MCP2210::PCGPIO)\<close> of pins 0 to 7,
  and \<open>bit_at\<close> a Boolean shifted left as an \<^verbatim>\<open>int\<close>.
\<close>

definition gp_of_index :: "'d MCP2210 \<Rightarrow> int \<Rightarrow> u8" where
  "gp_of_index mcp index = word_of_int (if index > 0 then index - 1 else uint (PCGPIO mcp))"

definition bit_at :: "bool \<Rightarrow> nat \<Rightarrow> int" where
  "bit_at b n = push_bit n (of_bool b)"

definition getEditedConfiguration ::
  "(QString \<Rightarrow> nat \<Rightarrow> u16) \<Rightarrow> 'd MCP2210 \<Rightarrow> 'd ConfiguratorWindow \<Rightarrow> 'd ConfiguratorWindow" where
  "getEditedConfiguration toUShort mcp w =
     (let g = comboBoxGP (ui w); v = checkBoxGPDefaultValue (ui w);
          dc = deviceConfiguration w; ec = editedConfiguration w
      in w\<lparr>editedConfiguration := ec
           \<lparr>manufacturer := lineEditManufacturer (ui w),
            product_desc := lineEditProduct (ui w),
            usbParameters := (usbParameters ec)
              \<lparr>vid := toUShort (lineEditVID (ui w)) 16,
               pid := toUShort (lineEditPID (ui w)) 16,
               maxpow := ucast (toUShort (lineEditMaxPowerHex (ui w)) 16),
               powmode := word_of_int (comboBoxPowerMode (ui w)),
               usb_rmwakeup := checkBoxRemoteWakeUpCapable (ui w)\<rparr>,
            chipSettings := (chipSettings ec)
              \<lparr>gp0 := gp_of_index mcp (g 0),
               gp1 := gp_of_index mcp (g 1),
               gp2 := gp_of_index mcp (g 2),
               gp3 := gp_of_index mcp (g 3),
               gp4 := gp_of_index mcp (g 4),
               gp5 := gp_of_index mcp (g 5),
               gp6 := gp_of_index mcp (g 6),
               gp7 := gp_of_index mcp (g 7),
               gp8 := (if g 8 = 0 then PCGPIO mcp else PCFUNC mcp),
               gpdir := word_of_int
                 (bit_at (g 7 \<noteq> 1) 7 OR bit_at (g 6 \<noteq> 1) 6 OR bit_at (g 5 \<noteq> 1) 5 OR
                  bit_at (g 4 \<noteq> 1) 4 OR bit_at (g 3 \<noteq> 1) 3 OR bit_at (g 2 \<noteq> 1) 2 OR
                  bit_at (g 1 \<noteq> 1) 1 OR of_bool (g 0 \<noteq> 1)),
               gpout := word_of_int
                 (bit_at (v 7) 7 OR bit_at (v 6) 6 OR bit_at (v 5) 5 OR bit_at (v 4) 4 OR
                  bit_at (v 3) 3 OR bit_at (v 2) 2 OR bit_at (v 1) 1 OR of_bool (v 0)),
               rmwakeup := checkBoxRemoteWakeUp (ui w),
               intmode := word_of_int (comboBoxInterruptMode (ui w)),
               nrelspi := checkBoxSPIBusCaptive (ui w)\<rparr>,
            spiSettings := (spiSettings ec)
              \<lparr>nbytes := nbytes (spiSettings dc),
               bitrate := bitrate (spiSettings dc),
               mode := mode (spiSettings dc),
               actcs := actcs (spiSettings dc),
               idlcs := idlcs (spiSettings dc),
               csdtdly := csdtdly (spiSettings dc),
               dtcsdly := dtcsdly (spiSettings dc),
               itbytdly := itbytdly (spiSettings dc)\<rparr>\<rparr>\<rparr>)"

subsection \<open>getNearestCompatibleBitRate\<close>

text \<open>
  The \<^verbatim>\<open>while (errcnt == 0)\<close> loop. Nothing in the code bounds the number of
  iterations, so the loop is a partial function: \<open>None\<close> is a loop that never exits.
  Its result is the values of \<^verbatim>\<open>nearestGreaterOrEqualBitrate\<close> and
  \<^verbatim>\<open>nearestLesserOrEqualBitrate\<close> at the exit, the device and the error pair.
  The last component is not in the code: it lists, oldest first, the pairs
  \<open>(testBitrate, returnedBitrate)\<close> of the iterations, so that statements can speak
  about what the loop observed.
\<close>

partial_function (option) probeLoop ::
  "'d MCP2210 \<Rightarrow> u32 \<Rightarrow> SPISettings \<Rightarrow> u32 \<Rightarrow> u32 \<Rightarrow> u32 \<Rightarrow> 'd \<Rightarrow> errs \<Rightarrow> (u32 \<times> u32) list
     \<Rightarrow> (u32 \<times> u32 \<times> 'd \<times> errs \<times> (u32 \<times> u32) list) option" where
  "probeLoop mcp bitrate_req testSPISettings testBitrate nearestGE nearestLE d e probes =
     (if fst e = 0 then
        (let testSPISettings1 = testSPISettings\<lparr>bitrate := testBitrate\<rparr>;
             (d1, e1) = configureSPISettings mcp testSPISettings1 d e;
             (s, d2, e2) = getSPISettings mcp d1 e1;
             returnedBitrate = bitrate s;
             probes1 = probes @ [(testBitrate, returnedBitrate)]
         in if returnedBitrate = testBitrate then
              (let nearestGE1 = (if testBitrate \<ge> bitrate_req then testBitrate else nearestGE) in
               if testBitrate \<le> bitrate_req then
                 Some (nearestGE1, testBitrate, d2, e2, probes1)
               else
                 probeLoop mcp bitrate_req testSPISettings1 (testBitrate - 1) nearestGE1 nearestLE
                   d2 e2 probes1)
            else
              probeLoop mcp bitrate_req testSPISettings1 returnedBitrate nearestGE nearestLE
                d2 e2 probes1)
      else Some (nearestGE, nearestLE, d, e, probes))"

definition getNearestCompatibleBitRate ::
  "'d MCP2210 \<Rightarrow> MCP2210Limits \<Rightarrow> u32 \<Rightarrow> 'd ConfiguratorWindow
     \<Rightarrow> (u32 \<times> 'd ConfiguratorWindow) option" where
  "getNearestCompatibleBitRate mcp lim bitrate_req w =
     (let (currentSPISettings, d0, e0) = getSPISettings mcp (mcp2210 w) (0, []);
          testSPISettings = currentSPISettings;
          testBitrate = 4 * bitrate_req
      in case probeLoop mcp bitrate_req testSPISettings testBitrate
                (BITRATE_MAX lim) (BITRATE_MIN lim) d0 e0 [] of
           None \<Rightarrow> None
         | Some (nearestGE, nearestLE, d1, e1, probes) \<Rightarrow>
             (let (d2, e2) = configureSPISettings mcp currentSPISettings d1 e1;
                  w1 = validateOperation mcp (qs ''get bit rate'') (fst e2) (snd e2)
                         (w\<lparr>mcp2210 := d2\<rparr>);
                  retval = (if nearestGE - bitrate_req < bitrate_req - nearestLE
                            then nearestGE else nearestLE)
              in Some (retval, w1)))"

subsection \<open>Vocabulary of the statements\<close>

text \<open>
  The definitions of this subsection are not in the code; the theorems use them to say
  what the code does. \<open>deviceReads\<close> is the sequence of the six getter calls of
  \<^verbatim>\<open>readDeviceConfiguration\<close>: the configuration they return, the access mode,
  the device and the error pair after the sixth call. \<open>runPrefix mcp tasks k w\<close> is
  the window after the first \<open>k\<close> tasks ran in list order, each from the state the
  previous one left. \<open>runTasks\<close> is the loop of \<^verbatim>\<open>configureDevice\<close> as a
  recursion over the list.
\<close>

definition deviceReads :: "'d MCP2210 \<Rightarrow> 'd \<Rightarrow> Configuration \<times> u8 \<times> 'd \<times> errs" where
  "deviceReads mcp d =
     (let (m, d1, e1) = getManufacturerDesc mcp d (0, []);
          (p, d2, e2) = getProductDesc mcp d1 e1;
          (u, d3, e3) = getUSBParameters mcp d2 e2;
          (c, d4, e4) = getNVChipSettings mcp d3 e3;
          (s, d5, e5) = getNVSPISettings mcp d4 e4;
          (a, d6, e6) = getAccessControlMode mcp d5 e5
      in (\<lparr>manufacturer = m, product_desc = p, usbParameters = u, chipSettings = c,
           spiSettings = s\<rparr>, a, d6, e6))"


text \<open>Lines joined by line terminators, and the same lines as a bulleted list.\<close>

fun join_lines :: "QString list \<Rightarrow> QString" where
  "join_lines [] = []"
| "join_lines [l] = l"
| "join_lines (l # ls) = l @ [newline] @ join_lines ls"

definition bulleted :: "QString list \<Rightarrow> QString" where
  "bulleted ls = concat (map (\<lambda>l. [newline, endash, space] @ l) ls)"


text \<open>
  The distance between two bit rates, without wrap-around. \<open>floor_channel mcp rb\<close>:
  no call on the volatile SPI settings changes the error pair, and a read after a write
  of bit rate \<open>x\<close> returns \<open>rb x\<close>, the greatest achievable value at or below
  \<open>x\<close>; a value \<open>a\<close> is achievable when \<open>rb a = a\<close>. \<open>searchLoop\<close> is the
  loop as \<^verbatim>\<open>getNearestCompatibleBitRate\<close> starts it, and \<open>probeDev\<close> the
  device after one write and read-back.
\<close>

definition absdiff :: "u32 \<Rightarrow> u32 \<Rightarrow> nat" where
  "absdiff a b = (if a \<le> b then unat b - unat a else unat a - unat b)"

definition floor_channel :: "'d MCP2210 \<Rightarrow> (u32 \<Rightarrow> u32) \<Rightarrow> bool" where
  "floor_channel mcp rb \<longleftrightarrow>
     (\<forall>d e. snd (snd (getSPISettings mcp d e)) = e) \<and>
     (\<forall>s d e. snd (configureSPISettings mcp s d e) = e) \<and>
     (\<forall>s d e e'. bitrate (fst (getSPISettings mcp (fst (configureSPISettings mcp s d e)) e'))
                    = rb (bitrate s)) \<and>
     (\<forall>x. rb x \<le> x) \<and>
     (\<forall>x. rb (rb x) = rb x) \<and>
     (\<forall>a x. rb a = a \<and> a \<le> x \<longrightarrow> a \<le> rb x)"

definition searchLoop ::
  "'d MCP2210 \<Rightarrow> MCP2210Limits \<Rightarrow> u32 \<Rightarrow> 'd ConfiguratorWindow
     \<Rightarrow> (u32 \<times> u32 \<times> 'd \<times> errs \<times> (u32 \<times> u32) list) option" where
  "searchLoop mcp lim bitrate_req w =
     (let (currentSPISettings, d0, e0) = getSPISettings mcp (mcp2210 w) (0, [])
      in probeLoop mcp bitrate_req currentSPISettings (4 * bitrate_req)
           (BITRATE_MAX lim) (BITRATE_MIN lim) d0 e0 [])"

definition probeDev :: "'d MCP2210 \<Rightarrow> SPISettings \<Rightarrow> u32 \<Rightarrow> 'd \<Rightarrow> errs \<Rightarrow> 'd" where
  "probeDev mcp testSPISettings testBitrate d e =
     fst (snd (getSPISettings mcp
       (fst (configureSPISettings mcp (testSPISettings\<lparr>bitrate := testBitrate\<rparr>) d e)) e))"

subsection \<open>A simulated device\<close>

text \<open>
  A device for the concrete runs: it keeps its volatile SPI settings and its NVRAM
  configuration, and counts the calls made on it. \<open>rfault\<close> and \<open>wfault\<close> say
  which calls (by their number) fail, a read or a write; a failing call changes nothing
  but the count, adds one to the error count and a line to the error text, and a failing
  read returns a zero value. A write of the volatile SPI settings stores the bit rate
  rounded by \<open>rb\<close>.
\<close>

record sim_dev =
  vol_spi :: SPISettings
  nv_cfg :: Configuration
  nv_access :: u8
  ops_done :: nat
  unplugged :: bool

definition tick :: "sim_dev \<Rightarrow> sim_dev" where
  "tick d = d\<lparr>ops_done := Suc (ops_done d)\<rparr>"

definition bump :: "errs \<Rightarrow> errs" where
  "bump e = (fst e + 1, snd e @ qs ''I/O error'' @ [newline])"

definition sim_read :: "(nat \<Rightarrow> bool) \<Rightarrow> 'a \<Rightarrow> (sim_dev \<Rightarrow> 'a) \<Rightarrow> sim_dev \<Rightarrow> errs \<Rightarrow> 'a \<times> sim_dev \<times> errs" where
  "sim_read faulty dflt f d e =
     (if faulty (ops_done d) then (dflt, tick d, bump e) else (f d, tick d, e))"

definition sim_write :: "(nat \<Rightarrow> bool) \<Rightarrow> (sim_dev \<Rightarrow> sim_dev) \<Rightarrow> sim_dev \<Rightarrow> errs \<Rightarrow> sim_dev \<times> errs" where
  "sim_write faulty upd d e =
     (if faulty (ops_done d) then (tick d, bump e) else (tick (upd d), e))"

definition spi_zero :: SPISettings where
  "spi_zero = \<lparr>nbytes = 0, bitrate = 0, mode = 0, actcs = 0, idlcs = 0, csdtdly = 0,
     dtcsdly = 0, itbytdly = 0\<rparr>"

definition usb_zero :: USBParameters where
  "usb_zero = \<lparr>vid = 0, pid = 0, maxpow = 0, powmode = 0, usb_rmwakeup = False\<rparr>"

definition chip_zero :: ChipSettings where
  "chip_zero = \<lparr>gp0 = 0, gp1 = 0, gp2 = 0, gp3 = 0, gp4 = 0, gp5 = 0, gp6 = 0, gp7 = 0,
     gp8 = 0, gpdir = 0, gpout = 0, rmwakeup = False, intmode = 0, nrelspi = False\<rparr>"

definition sim_mcp :: "(u32 \<Rightarrow> u32) \<Rightarrow> (nat \<Rightarrow> bool) \<Rightarrow> (nat \<Rightarrow> bool) \<Rightarrow> sim_dev MCP2210" where
  "sim_mcp rb rfault wfault =
     \<lparr>PCGPIO = 0, PCFUNC = 2, ACNONE = 0,
      disconnected = unplugged,
      isOpen = (\<lambda>d. \<not> unplugged d),
      close_dev = (\<lambda>d. d),
      getSPISettings = sim_read rfault spi_zero vol_spi,
      configureSPISettings =
        (\<lambda>s. sim_write wfault (\<lambda>d. d\<lparr>vol_spi := s\<lparr>bitrate := rb (bitrate s)\<rparr>\<rparr>)),
      configureChipSettings = (\<lambda>c. sim_write wfault (\<lambda>d. d)),
      getManufacturerDesc = sim_read rfault [] (\<lambda>d. manufacturer (nv_cfg d)),
      getProductDesc = sim_read rfault [] (\<lambda>d. product_desc (nv_cfg d)),
      getUSBParameters = sim_read rfault usb_zero (\<lambda>d. usbParameters (nv_cfg d)),
      getNVChipSettings = sim_read rfault chip_zero (\<lambda>d. chipSettings (nv_cfg d)),
      getNVSPISettings = sim_read rfault spi_zero (\<lambda>d. spiSettings (nv_cfg d)),
      getAccessControlMode = sim_read rfault 0 nv_access,
      writeManufacturerDesc =
        (\<lambda>m. sim_write wfault (\<lambda>d. d\<lparr>nv_cfg := (nv_cfg d)\<lparr>manufacturer := m\<rparr>\<rparr>)),
      writeProductDesc =
        (\<lambda>p. sim_write wfault (\<lambda>d. d\<lparr>nv_cfg := (nv_cfg d)\<lparr>product_desc := p\<rparr>\<rparr>)),
      writeUSBParameters =
        (\<lambda>u. sim_write wfault (\<lambda>d. d\<lparr>nv_cfg := (nv_cfg d)\<lparr>usbParameters := u\<rparr>\<rparr>)),
      writeNVChipSettings =
        (\<lambda>c a p. sim_write wfault (\<lambda>d. d\<lparr>nv_cfg := (nv_cfg d)\<lparr>chipSettings := c\<rparr>\<rparr>))\<rparr>"

definition rb_steps :: "u32 \<Rightarrow> u32" where
  "rb_steps w = (if 12000000 \<le> w then 12000000 else if 3000000 \<le> w then 3000000
                 else if 1000000 \<le> w then 1000000 else 0)"

definition rb_low :: "u32 \<Rightarrow> u32" where
  "rb_low w = (if 1000 \<le> w then 1000 else 0)"

definition at :: "nat \<Rightarrow> nat \<Rightarrow> bool" where
  "at n k = (k = n)"

definition never :: "nat \<Rightarrow> bool" where
  "never k = False"

definition since :: "nat \<Rightarrow> nat \<Rightarrow> bool" where
  "since n k = (n \<le> k)"

definition cfg_ex :: Configuration where
  "cfg_ex = \<lparr>manufacturer = qs ''Microchip'', product_desc = qs ''MCP2210'',
     usbParameters = usb_zero\<lparr>vid := 0x04D8, pid := 0x00DE, maxpow := 50\<rparr>,
     chipSettings = chip_zero, spiSettings = spi_zero\<lparr>bitrate := 1000000\<rparr>\<rparr>"

definition dev_ex :: sim_dev where
  "dev_ex = \<lparr>vol_spi = spi_zero\<lparr>bitrate := 1000000\<rparr>, nv_cfg = cfg_ex, nv_access = 0,
     ops_done = 0, unplugged = False\<rparr>"

definition ui_ex :: Ui where
  "ui_ex = \<lparr>lineEditManufacturer = qs ''Microchip'', lineEditProduct = qs ''MCP2210'',
     lineEditVID = qs ''04d8'', lineEditPID = qs ''00de'', lineEditMaxPowerHex = qs ''32'',
     comboBoxPowerMode = 0, checkBoxRemoteWakeUpCapable = False,
     comboBoxGP = (\<lambda>k. 0), checkBoxGPDefaultValue = (\<lambda>k. False),
     checkBoxRemoteWakeUp = False, comboBoxInterruptMode = 0, checkBoxSPIBusCaptive = False,
     checkBoxApplyImmediately = True\<rparr>"

definition w_ex :: "sim_dev ConfiguratorWindow" where
  "w_ex = \<lparr>mcp2210 = dev_ex, err = False, errmsg = [], deviceConfiguration = cfg_ex,
     editedConfiguration = cfg_ex, accessMode = 0, viewEnabled = True, ui = ui_ex\<rparr>"

definition lim_ex :: MCP2210Limits where
  "lim_ex = \<lparr>BITRATE_MIN = 1464, BITRATE_MAX = 12000000\<rparr>"

definition w_edit :: "sim_dev ConfiguratorWindow" where
  "w_edit = w_ex\<lparr>editedConfiguration :=
     cfg_ex\<lparr>usbParameters := (usbParameters cfg_ex)\<lparr>maxpow := 60\<rparr>\<rparr>\<rparr>"

definition w_product :: "sim_dev ConfiguratorWindow" where
  "w_product = w_ex\<lparr>editedConfiguration := cfg_ex\<lparr>product_desc := qs ''Bridge''\<rparr>\<rparr>"

section \<open>Properties\<close>

lemmas sim_defs = sim_mcp_def sim_read_def sim_write_def tick_def bump_def never_def at_def
  since_def
  w_ex_def dev_ex_def cfg_ex_def ui_ex_def lim_ex_def spi_zero_def usb_zero_def chip_zero_def

subsection \<open>validateOperation\<close>

lemma validate_frame:
  "deviceConfiguration (validateOperation mcp operation n s w) = deviceConfiguration w"
  "editedConfiguration (validateOperation mcp operation n s w) = editedConfiguration w"
  "mcp2210 (validateOperation mcp operation n s w) = mcp2210 w"
  "err (validateOperation mcp operation n s w) = (err w \<or> n > 0)"
  by (simp_all add: validateOperation_def Let_def)

text \<open>
  Claim C8. With an error count of zero \<^verbatim>\<open>validateOperation\<close> flags nothing: the
  window is left as it was, whatever the error text. With a positive error count and
  a device that reports being disconnected, the error flag is set and the message is
  the fixed reconnect prompt, whatever the operation name and the error text.
\<close>

theorem validateOperation_classification:
  "(errcnt = 0 \<longrightarrow> validateOperation mcp operation errcnt errstr w = w) \<and>
   (errcnt > 0 \<and> disconnected mcp (mcp2210 w) \<longrightarrow>
      validateOperation mcp operation errcnt errstr w
        = w\<lparr>err := True, errmsg := msg_disconnected\<rparr>)"
  by (simp add: validateOperation_def Let_def)

theorem validateOperation_classification_witness:
  "validateOperation (sim_mcp rb_steps never never) (qs ''get bit rate'') 0
      (qs ''stale text'') w_ex = w_ex \<and>
   validateOperation (sim_mcp rb_steps never never) (qs ''get bit rate'') 2
      (qs ''stale text'') (w_ex\<lparr>mcp2210 := dev_ex\<lparr>unplugged := True\<rparr>\<rparr>)
     = w_ex\<lparr>mcp2210 := dev_ex\<lparr>unplugged := True\<rparr>, err := True, errmsg := msg_disconnected\<rparr>"
  using validateOperation_classification[of 0 "sim_mcp rb_steps never never"
          "qs ''get bit rate''" "qs ''stale text''" w_ex]
        validateOperation_classification[of 2 "sim_mcp rb_steps never never"
          "qs ''get bit rate''" "qs ''stale text''" "w_ex\<lparr>mcp2210 := dev_ex\<lparr>unplugged := True\<rparr>\<rparr>"]
  by (simp add: sim_mcp_def)

lemma replace_append: "replace b a (s @ t) = replace b a s @ replace b a t"
  by (simp add: replace_def)

lemma replace_absent: "b \<notin> set s \<Longrightarrow> replace b a s = s"
  by (induction s) (auto simp: replace_def)

lemma replace_join_lines:
  "\<forall>l \<in> set ls. newline \<notin> set l \<Longrightarrow> ls \<noteq> [] \<Longrightarrow>
   [newline, endash, space] @ replace newline [newline, endash, space] (join_lines ls)
     = bulleted ls"
proof (induction ls rule: join_lines.induct)
  case 1
  then show ?case by simp
next
  case (2 l)
  then show ?case by (simp add: bulleted_def replace_absent)
next
  case (3 l v va)
  then have "[newline, endash, space]
      @ replace newline [newline, endash, space] (join_lines (v # va)) = bulleted (v # va)"
    by simp
  with 3 show ?case
    by (simp add: bulleted_def replace_absent replace_append) (simp add: replace_def)
qed

lemma chop_snoc: "chop (Suc 0) (s @ [c]) = s"
  by (simp add: chop_def)

lemma join_lines_Cons: "ls \<noteq> [] \<Longrightarrow> join_lines (l # ls) = l @ newline # join_lines ls"
  by (cases ls) simp_all

lemma join_lines_split:
  "\<exists>ls. ls \<noteq> [] \<and> (\<forall>l \<in> set ls. newline \<notin> set l) \<and> body = join_lines ls"
proof (induction body)
  case Nil
  show ?case by (intro exI[of _ "[[]]"]) simp
next
  case (Cons c cs)
  then obtain l ls0 where ls: "\<forall>l' \<in> set (l # ls0). newline \<notin> set l'"
      "cs = join_lines (l # ls0)"
    by (metis list.exhaust)
  show ?case
  proof (cases "c = newline")
    case True
    have "c # cs = join_lines ([] # l # ls0)"
      using True ls(2) by simp
    then show ?thesis
      using ls(1) by (intro exI[of _ "[] # l # ls0"]) simp
  next
    case False
    have "c # cs = join_lines ((c # l) # ls0)"
      using ls(2) by (cases ls0) simp_all
    then show ?thesis
      using ls(1) False by (intro exI[of _ "(c # l) # ls0"]) simp
  qed
qed

lemma append_sep_inject:
  "x \<notin> set l \<Longrightarrow> x \<notin> set m \<Longrightarrow> l @ x # r = m @ x # r' \<Longrightarrow> l = m \<and> r = r'"
proof (induction l arbitrary: m)
  case Nil
  then show ?case by (cases m) auto
next
  case (Cons a l)
  then show ?case by (cases m) auto
qed

lemma join_lines_inject:
  "\<forall>l \<in> set ls. newline \<notin> set l \<Longrightarrow> \<forall>l \<in> set ms. newline \<notin> set l \<Longrightarrow>
   ls \<noteq> [] \<Longrightarrow> ms \<noteq> [] \<Longrightarrow> join_lines ls = join_lines ms \<Longrightarrow> ls = ms"
proof (induction ls arbitrary: ms)
  case Nil
  then show ?case by simp
next
  case (Cons l ls)
  obtain m ms0 where ms: "ms = m # ms0"
    using Cons.prems(4) by (cases ms) auto
  have nl: "newline \<notin> set l" "newline \<notin> set m"
    using Cons.prems(1,2) ms by auto
  show ?case
  proof (cases "ls = []")
    case True
    show ?thesis
    proof (cases "ms0 = []")
      case True
      then show ?thesis using Cons.prems(5) \<open>ls = []\<close> ms by simp
    next
      case False
      have "l = m @ newline # join_lines ms0"
        using Cons.prems(5) \<open>ls = []\<close> ms False by (simp add: join_lines_Cons)
      then show ?thesis using nl(1) by simp
    qed
  next
    case False
    show ?thesis
    proof (cases "ms0 = []")
      case True
      have "m = l @ newline # join_lines ls"
        using Cons.prems(5) False ms True by (simp add: join_lines_Cons)
      then show ?thesis using nl(2) by simp
    next
      case ms0: False
      have eq: "l @ newline # join_lines ls = m @ newline # join_lines ms0"
        using Cons.prems(5) False ms ms0 by (simp add: join_lines_Cons)
      have lm: "l = m \<and> join_lines ls = join_lines ms0"
        using append_sep_inject[OF nl eq] .
      then have "ls = ms0"
        using Cons.IH[of ms0] Cons.prems(1,2) False ms0 ms by simp
      then show ?thesis using lm ms by simp
    qed
  qed
qed

text \<open>
  Claim C9, as the code has it. \<^verbatim>\<open>chop(1)\<close> removes the last code unit of the
  error text whatever it is, so the claim holds for the error texts that end with a line
  terminator: with a positive error count, a connected device and an error text that
  ends with a line terminator, exactly that terminator is removed, and the message is
  the sentence naming the operation followed by the lines of the remainder as a
  bulleted list. (The count is passed to \<^verbatim>\<open>tr\<close> for the plural form; the
  source text reads "error(s)".)
\<close>

theorem validateOperation_bulleted_message:
  assumes "errcnt > 0" and "\<not> disconnected mcp (mcp2210 w)"
    and "errstr = body @ [newline]"
  shows "\<exists>ls. ls \<noteq> [] \<and> (\<forall>l \<in> set ls. newline \<notin> set l) \<and> body = join_lines ls \<and>
           validateOperation mcp operation errcnt errstr w =
             w\<lparr>err := True,
               errmsg := qs ''Failed to '' @ operation
                 @ qs ''. The operation returned the following error(s):'' @ bulleted ls\<rparr>"
proof -
  obtain ls where ls: "ls \<noteq> []" "\<forall>l \<in> set ls. newline \<notin> set l" "body = join_lines ls"
    using join_lines_split[of body] by blast
  have "validateOperation mcp operation errcnt errstr w =
          w\<lparr>err := True,
            errmsg := qs ''Failed to '' @ operation
              @ qs ''. The operation returned the following error(s):'' @ bulleted ls\<rparr>"
    using assms ls replace_join_lines[of ls]
    by (simp add: validateOperation_def Let_def chop_snoc msg_failed_def)
  then show ?thesis using ls by blast
qed

theorem validateOperation_bulleted_message_witness:
  "join_lines [qs ''timeout'', qs ''stall''] = qs ''timeout'' @ [newline] @ qs ''stall'' \<and>
   validateOperation (sim_mcp rb_steps never never) (qs ''get bit rate'') 2
      (qs ''timeout'' @ [newline] @ qs ''stall'' @ [newline]) w_ex
    = w_ex\<lparr>err := True,
        errmsg := qs ''Failed to get bit rate. The operation returned the following error(s):''
          @ bulleted [qs ''timeout'', qs ''stall'']\<rparr>"
proof -
  have c: "\<not> disconnected (sim_mcp rb_steps never never) (mcp2210 w_ex)"
    by (simp add: sim_defs)
  have b: "qs ''timeout'' @ [newline] @ qs ''stall'' @ [newline]
             = (qs ''timeout'' @ [newline] @ qs ''stall'') @ [newline]"
    by simp
  obtain ls where ls: "\<forall>l \<in> set ls. newline \<notin> set l"
      "qs ''timeout'' @ [newline] @ qs ''stall'' = join_lines ls" "ls \<noteq> []"
      "validateOperation (sim_mcp rb_steps never never) (qs ''get bit rate'') 2
         (qs ''timeout'' @ [newline] @ qs ''stall'' @ [newline]) w_ex
       = w_ex\<lparr>err := True, errmsg := qs ''Failed to '' @ qs ''get bit rate''
             @ qs ''. The operation returned the following error(s):'' @ bulleted ls\<rparr>"
    using validateOperation_bulleted_message[OF _ c b, of 2 "qs ''get bit rate''"] by auto
  note run = ls(4)
  have j: "join_lines [qs ''timeout'', qs ''stall''] = qs ''timeout'' @ [newline] @ qs ''stall''"
    by simp
  have n: "\<forall>l \<in> set [qs ''timeout'', qs ''stall'']. newline \<notin> set l"
    by (simp add: qs_def newline_def)
  have "ls = [qs ''timeout'', qs ''stall'']"
    using join_lines_inject[OF ls(1) n ls(3)] ls(2) j by simp
  then show ?thesis
    using run j by (simp add: qs_def)
qed

text \<open>The claim as stated fails on an error text with no line terminator at its end:
  of "abc" the message keeps "ab".\<close>

theorem validateOperation_chop_counterexample:
  "newline \<notin> set (qs ''abc'') \<and>
   errmsg (validateOperation (sim_mcp rb_steps never never) (qs ''get bit rate'') 1
             (qs ''abc'') w_ex)
     = msg_failed (qs ''get bit rate'') (qs ''ab'')"
  by (simp add: validateOperation_def Let_def sim_defs chop_def replace_def qs_def newline_def)

subsection \<open>prepareTaskList and getEditedConfiguration\<close>

text \<open>
  Claim C4. The task list is the write tasks of the fields that differ, in the order
  manufacturer, product, USB parameters, chip settings, then
  \<^verbatim>\<open>verifyConfiguration\<close>, then, when the apply-immediately box is checked,
  \<^verbatim>\<open>applyChipSettings\<close> if the chip settings differ and \<^verbatim>\<open>applySPISettings\<close>
  if the SPI settings differ. For equal configurations it is the verification alone.
\<close>

theorem prepareTaskList_tasks:
  "prepareTaskList w =
     (if manufacturer (editedConfiguration w) \<noteq> manufacturer (deviceConfiguration w)
        then [qs ''writeManufacturerDesc''] else []) @
     (if product_desc (editedConfiguration w) \<noteq> product_desc (deviceConfiguration w)
        then [qs ''writeProductDesc''] else []) @
     (if usbParameters (editedConfiguration w) \<noteq> usbParameters (deviceConfiguration w)
        then [qs ''writeUSBParameters''] else []) @
     (if chipSettings (editedConfiguration w) \<noteq> chipSettings (deviceConfiguration w)
        then [qs ''writeChipSettings''] else []) @
     [qs ''verifyConfiguration''] @
     (if checkBoxApplyImmediately (ui w) \<and>
         chipSettings (editedConfiguration w) \<noteq> chipSettings (deviceConfiguration w)
        then [qs ''applyChipSettings''] else []) @
     (if checkBoxApplyImmediately (ui w) \<and>
         spiSettings (editedConfiguration w) \<noteq> spiSettings (deviceConfiguration w)
        then [qs ''applySPISettings''] else [])
   \<and> (editedConfiguration w = deviceConfiguration w \<longrightarrow>
        prepareTaskList w = [qs ''verifyConfiguration''])"
  by (simp add: prepareTaskList_def Let_def)

theorem prepareTaskList_tasks_witness:
  "prepareTaskList w_product = [qs ''writeProductDesc'', qs ''verifyConfiguration''] \<and>
   editedConfiguration w_ex = deviceConfiguration w_ex \<and>
   prepareTaskList w_ex = [qs ''verifyConfiguration'']"
  using prepareTaskList_tasks[of w_product] prepareTaskList_tasks[of w_ex]
  by (simp add: w_product_def w_ex_def cfg_ex_def qs_def)

lemma spi_copy:
  "(r::SPISettings)\<lparr>nbytes := nbytes s, bitrate := bitrate s, mode := mode s,
      actcs := actcs s, idlcs := idlcs s, csdtdly := csdtdly s, dtcsdly := dtcsdly s,
      itbytdly := itbytdly s\<rparr> = s"
  by (cases r, cases s) simp

text \<open>
  Claim C10. \<^verbatim>\<open>getEditedConfiguration\<close> copies every SPI field from the device
  configuration and leaves the device configuration alone, so the task list built from
  the captured state (also after \<^verbatim>\<open>configureDevice\<close> cleared the error flag)
  never names \<^verbatim>\<open>applySPISettings\<close>, whatever the apply-immediately box says.
\<close>

theorem getEditedConfiguration_keeps_spiSettings:
  "spiSettings (editedConfiguration (getEditedConfiguration toUShort mcp w))
     = spiSettings (deviceConfiguration w)
   \<and> deviceConfiguration (getEditedConfiguration toUShort mcp w) = deviceConfiguration w
   \<and> qs ''applySPISettings'' \<notin> set (prepareTaskList (getEditedConfiguration toUShort mcp w))
   \<and> qs ''applySPISettings''
        \<notin> set (prepareTaskList ((getEditedConfiguration toUShort mcp w)\<lparr>err := False\<rparr>))"
  by (simp add: getEditedConfiguration_def Let_def spi_copy prepareTaskList_def qs_def)

theorem getEditedConfiguration_keeps_spiSettings_witness:
  "checkBoxApplyImmediately (ui w_product) \<and>
   qs ''applySPISettings''
     \<notin> set (prepareTaskList
         (getEditedConfiguration (\<lambda>t base. 0) (sim_mcp rb_steps never never) w_product))"
  using getEditedConfiguration_keeps_spiSettings[of "\<lambda>t base. 0"
          "sim_mcp rb_steps never never" w_product]
  by (simp add: w_product_def w_ex_def ui_ex_def)

subsection \<open>readDeviceConfiguration and verifyConfiguration\<close>

lemma cfg_all:
  "(r::Configuration)\<lparr>manufacturer := m, product_desc := p, usbParameters := u,
      chipSettings := c, spiSettings := s\<rparr>
   = \<lparr>manufacturer = m, product_desc = p, usbParameters = u, chipSettings = c,
      spiSettings = s\<rparr>"
  by (cases r) simp

lemma readDeviceConfiguration_deviceReads:
  "readDeviceConfiguration mcp w =
     (case deviceReads mcp (mcp2210 w) of (cfg, a, d, e) \<Rightarrow>
        validateOperation mcp (qs ''read device configuration'') (fst e) (snd e)
          (w\<lparr>mcp2210 := d, deviceConfiguration := cfg, accessMode := a\<rparr>))"
  by (cases w)
     (simp add: readDeviceConfiguration_def deviceReads_def Let_def cfg_all split: prod.splits)

text \<open>
  Claim C7, as the code has it. \<^verbatim>\<open>readDeviceConfiguration\<close> assigns each getter's
  result to its field before the error count is looked at, so every read replaces
  \<open>deviceConfiguration\<close>: after the call it holds what the five getters returned,
  whether or not the channel reported errors. A read with errors is signalled by the
  error flag, which is set whenever the error count is positive.
\<close>

theorem readDeviceConfiguration_overwrites:
  "deviceReads mcp (mcp2210 w) = (cfg, a, d, e) \<Longrightarrow>
     deviceConfiguration (readDeviceConfiguration mcp w) = cfg \<and>
     accessMode (readDeviceConfiguration mcp w) = a \<and>
     (fst e > 0 \<longrightarrow> err (readDeviceConfiguration mcp w))"
  by (simp add: readDeviceConfiguration_deviceReads validateOperation_def Let_def)

theorem readDeviceConfiguration_overwrites_witness:
  "deviceReads (sim_mcp rb_steps (at 1) never) (mcp2210 w_ex)
      = (cfg_ex\<lparr>product_desc := []\<rparr>, 0, dev_ex\<lparr>ops_done := 6\<rparr>,
         (1, qs ''I/O error'' @ [newline])) \<and>
   deviceConfiguration (readDeviceConfiguration (sim_mcp rb_steps (at 1) never) w_ex)
      = cfg_ex\<lparr>product_desc := []\<rparr> \<and>
   err (readDeviceConfiguration (sim_mcp rb_steps (at 1) never) w_ex)"
proof -
  have h: "deviceReads (sim_mcp rb_steps (at 1) never) (mcp2210 w_ex)
      = (cfg_ex\<lparr>product_desc := []\<rparr>, 0, dev_ex\<lparr>ops_done := 6\<rparr>,
         (1, qs ''I/O error'' @ [newline]))"
    by (simp add: deviceReads_def Let_def sim_defs)
  show ?thesis using h readDeviceConfiguration_overwrites[OF h] by simp
qed

text \<open>The claim as stated fails when one getter fails: the channel reports one error
  (the second call, the product descriptor, fails), and the stored product descriptor
  is replaced by the empty string the failed call returned.\<close>

theorem readDeviceConfiguration_not_atomic_counterexample:
  "fst (snd (snd (snd (deviceReads (sim_mcp rb_steps (at 1) never) (mcp2210 w_ex))))) = 1 \<and>
   err (readDeviceConfiguration (sim_mcp rb_steps (at 1) never) w_ex) \<and>
   product_desc (deviceConfiguration w_ex) = qs ''MCP2210'' \<and>
   product_desc (deviceConfiguration
      (readDeviceConfiguration (sim_mcp rb_steps (at 1) never) w_ex)) = [] \<and>
   deviceConfiguration (readDeviceConfiguration (sim_mcp rb_steps (at 1) never) w_ex)
     \<noteq> deviceConfiguration w_ex"
  by (simp add: readDeviceConfiguration_def deviceReads_def validateOperation_def Let_def
        sim_defs qs_def)

text \<open>
  Claim C6. \<^verbatim>\<open>verifyConfiguration\<close>, called with the error flag clear (as
  \<^verbatim>\<open>configureDevice\<close> calls every task), re-reads the device configuration. When
  the re-read reports no error, the configuration read is stored and compared with
  \<open>editedConfiguration\<close>: if they differ the error flag is set and the message is
  exactly "Failed verification."; if they are equal the flag stays clear. That message
  is neither of the two messages \<^verbatim>\<open>validateOperation\<close> produces for a transport
  error.
\<close>

theorem verifyConfiguration_mismatch:
  assumes "\<not> err w" and "deviceReads mcp (mcp2210 w) = (cfg, a, d, e)" and "fst e = 0"
  shows "(cfg \<noteq> editedConfiguration w \<longrightarrow>
            err (verifyConfiguration mcp w) \<and>
            errmsg (verifyConfiguration mcp w) = qs ''Failed verification.'')
       \<and> (cfg = editedConfiguration w \<longrightarrow> \<not> err (verifyConfiguration mcp w))
       \<and> deviceConfiguration (verifyConfiguration mcp w) = cfg
       \<and> qs ''Failed verification.'' \<noteq> msg_disconnected
       \<and> (\<forall>operation errstr. qs ''Failed verification.'' \<noteq> msg_failed operation errstr)"
  using assms
  by (simp add: verifyConfiguration_def Let_def readDeviceConfiguration_deviceReads
        validateOperation_def)
     (simp add: msg_disconnected_def msg_failed_def qs_def)

theorem verifyConfiguration_mismatch_witness:
  "\<not> err w_edit \<and>
   deviceReads (sim_mcp rb_steps never never) (mcp2210 w_edit)
      = (cfg_ex, 0, dev_ex\<lparr>ops_done := 6\<rparr>, (0, [])) \<and>
   cfg_ex \<noteq> editedConfiguration w_edit \<and>
   err (verifyConfiguration (sim_mcp rb_steps never never) w_edit) \<and>
   errmsg (verifyConfiguration (sim_mcp rb_steps never never) w_edit)
      = qs ''Failed verification.'' \<and>
   cfg_ex = editedConfiguration w_ex \<and>
   \<not> err (verifyConfiguration (sim_mcp rb_steps never never) w_ex)"
proof -
  have h: "deviceReads (sim_mcp rb_steps never never) (mcp2210 w_edit)
      = (cfg_ex, 0, dev_ex\<lparr>ops_done := 6\<rparr>, (0, []))"
    by (simp add: deviceReads_def Let_def sim_defs w_edit_def)
  have h': "deviceReads (sim_mcp rb_steps never never) (mcp2210 w_ex)
      = (cfg_ex, 0, dev_ex\<lparr>ops_done := 6\<rparr>, (0, []))"
    by (simp add: deviceReads_def Let_def sim_defs)
  have e: "\<not> err w_edit" "\<not> err w_ex"
    by (simp_all add: w_edit_def w_ex_def)
  have n: "fst ((0, []) :: errs) = 0"
    by simp
  have d: "cfg_ex \<noteq> editedConfiguration w_edit" "cfg_ex = editedConfiguration w_ex"
    by (simp_all add: w_edit_def w_ex_def cfg_ex_def usb_zero_def)
  show ?thesis
    using verifyConfiguration_mismatch[OF e(1) h n]
      verifyConfiguration_mismatch[OF e(2) h' n] e h d by simp
qed

subsection \<open>configureDevice\<close>














subsection \<open>getNearestCompatibleBitRate\<close>

lemma floor_channel_cfg:
  "floor_channel mcp rb \<Longrightarrow>
   configureSPISettings mcp s d e = (fst (configureSPISettings mcp s d e), e)"
  unfolding floor_channel_def by (metis prod.collapse)

lemma floor_channel_get:
  "floor_channel mcp rb \<Longrightarrow>
   getSPISettings mcp d e = (fst (getSPISettings mcp d e), fst (snd (getSPISettings mcp d e)), e)"
  unfolding floor_channel_def by (metis prod.collapse)

lemma floor_channel_rb:
  "floor_channel mcp rb \<Longrightarrow>
   bitrate (fst (getSPISettings mcp (fst (configureSPISettings mcp s d e)) e')) = rb (bitrate s)"
  unfolding floor_channel_def by blast

lemma floor_le: "floor_channel mcp rb \<Longrightarrow> rb x \<le> x"
  unfolding floor_channel_def by blast

lemma floor_idem: "floor_channel mcp rb \<Longrightarrow> rb (rb x) = rb x"
  unfolding floor_channel_def by blast

lemma floor_greatest: "floor_channel mcp rb \<Longrightarrow> rb a = a \<Longrightarrow> a \<le> x \<Longrightarrow> a \<le> rb x"
  unfolding floor_channel_def by blast

lemma probeLoop_step:
  assumes fc: "floor_channel mcp rb" and e: "fst e = 0"
  shows "probeLoop mcp b tss t g le d e ps =
     (if rb t = t then
        (if t \<le> b then Some ((if b \<le> t then t else g), t, probeDev mcp tss t d e, e, ps @ [(t, t)])
         else probeLoop mcp b (tss\<lparr>bitrate := t\<rparr>) (t - 1) (if b \<le> t then t else g) le
                (probeDev mcp tss t d e) e (ps @ [(t, t)]))
      else probeLoop mcp b (tss\<lparr>bitrate := t\<rparr>) (rb t) g le
             (probeDev mcp tss t d e) e (ps @ [(t, rb t)]))"
proof -
  let ?s1 = "tss\<lparr>bitrate := t\<rparr>"
  obtain d1 where c: "configureSPISettings mcp ?s1 d e = (d1, e)"
    using floor_channel_cfg[OF fc, of ?s1 d e] by metis
  obtain s d2 where g: "getSPISettings mcp d1 e = (s, d2, e)"
    using floor_channel_get[OF fc, of d1 e] by metis
  have d2: "d2 = probeDev mcp tss t d e"
    using c g by (simp add: probeDev_def)
  have r: "bitrate s = rb t"
    using floor_channel_rb[OF fc, of ?s1 d e e] c g by simp
  show ?thesis
    apply (subst probeLoop.simps)
    apply (simp only: e if_True Let_def c prod.case g r)
    apply (simp add: d2)
    done
qed


lemma pred_facts:
  fixes b t :: u32
  assumes "\<not> t \<le> b"
  shows "unat (t - 1) < unat t" and "b \<le> t - 1" and "\<And>a. a \<le> t \<Longrightarrow> a \<noteq> t \<Longrightarrow> a \<le> t - 1"
    and "\<And>a. a \<le> t - 1 \<Longrightarrow> a \<le> t"
proof -
  have t0: "t \<noteq> 0" using assms by auto
  have u: "unat (t - 1) = unat t - 1" using t0 by (simp add: unat_minus_one)
  have p: "0 < unat t" using t0 by (simp add: unat_gt_0)
  show "unat (t - 1) < unat t" using u p by simp
  show "b \<le> t - 1" using assms u p by (simp add: word_le_nat_alt)
  show "\<And>a. a \<le> t \<Longrightarrow> a \<noteq> t \<Longrightarrow> a \<le> t - 1"
  proof -
    fix a :: u32 assume "a \<le> t" "a \<noteq> t"
    then have "unat a < unat t"
      by (simp add: word_le_nat_alt) (metis le_neq_implies_less word_unat_eq_iff)
    then show "a \<le> t - 1" using u by (simp add: word_le_nat_alt)
  qed
  show "\<And>a. a \<le> t - 1 \<Longrightarrow> a \<le> t" using u by (simp add: word_le_nat_alt)
qed

lemma floor_min:
  assumes fc: "floor_channel mcp rb" and ne: "rb t \<noteq> t"
  shows "rb (min (rb t) b) = rb (min t b)"
proof (cases "t \<le> b")
  case True
  then have "rb t \<le> b" using floor_le[OF fc, of t] by simp
  then show ?thesis using True by (simp add: min_def floor_idem[OF fc])
next
  case False
  then have bt: "b \<le> t" by simp
  show ?thesis
  proof (cases "rb t \<le> b")
    case True
    have 1: "rb b \<le> rb t"
      using floor_greatest[OF fc, of "rb b" t] floor_idem[OF fc, of b] floor_le[OF fc, of b] bt by simp
    have 2: "rb t \<le> rb b"
      using floor_greatest[OF fc, of "rb t" b] floor_idem[OF fc, of t] True by simp
    show ?thesis using 1 2 True bt False by (simp add: min_def floor_idem[OF fc])
  next
    case False
    then show ?thesis using bt by (simp add: min_def)
  qed
qed

lemma probeLoop_floor:
  assumes fc: "floor_channel mcp rb" and e: "fst e = 0"
  shows "\<exists>g' d' ps'. probeLoop mcp b tss t g le d e ps = Some (g', rb (min t b), d', e, ps') \<and>
           set ps \<subseteq> set ps' \<and> (rb (min t b), rb (min t b)) \<in> set ps' \<and>
           (if \<exists>a. rb a = a \<and> b \<le> a \<and> a \<le> t
            then rb g' = g' \<and> b \<le> g' \<and> (\<forall>a. rb a = a \<and> b \<le> a \<longrightarrow> g' \<le> a) \<and> (g', g') \<in> set ps'
            else g' = g)"
proof (induction "unat t" arbitrary: t tss g d ps rule: less_induct)
  case less
  note step = probeLoop_step[OF fc e, of b tss t g le d ps]
  show ?case
  proof (cases "rb t = t")
    case False
    have lt: "unat (rb t) < unat t"
      using False floor_le[OF fc, of t]
      by (simp add: word_le_nat_alt) (metis le_neq_implies_less word_unat_eq_iff)
    from less.hyps[OF lt, of "tss\<lparr>bitrate := t\<rparr>" g "probeDev mcp tss t d e" "ps @ [(t, rb t)]"]
    obtain g' d' ps' where ih:
      "probeLoop mcp b (tss\<lparr>bitrate := t\<rparr>) (rb t) g le (probeDev mcp tss t d e) e (ps @ [(t, rb t)])
         = Some (g', rb (min (rb t) b), d', e, ps')"
      "set (ps @ [(t, rb t)]) \<subseteq> set ps'"
      "(rb (min (rb t) b), rb (min (rb t) b)) \<in> set ps'"
      "if \<exists>a. rb a = a \<and> b \<le> a \<and> a \<le> rb t
            then rb g' = g' \<and> b \<le> g' \<and> (\<forall>a. rb a = a \<and> b \<le> a \<longrightarrow> g' \<le> a) \<and> (g', g') \<in> set ps'
            else g' = g" by blast
    have ex: "(\<exists>a. rb a = a \<and> b \<le> a \<and> a \<le> rb t) = (\<exists>a. rb a = a \<and> b \<le> a \<and> a \<le> t)"
      using floor_greatest[OF fc] floor_le[OF fc, of t] by (meson order_trans)
    have m: "rb (min (rb t) b) = rb (min t b)" using floor_min[OF fc False] .
    show ?thesis
      using ih False unfolding ex m
      by (intro exI[of _ g'] exI[of _ d'] exI[of _ ps']) (simp add: step)
  next
    case True
    show ?thesis
    proof (cases "t \<le> b")
      case le: True
      have m: "rb (min t b) = t" using le True by (simp add: min_def)
      have ex: "(\<exists>a. rb a = a \<and> b \<le> a \<and> a \<le> t) = (b \<le> t)"
        using True le by auto
      show ?thesis
        using True le unfolding m ex
        by (intro exI[of _ "if b \<le> t then t else g"] exI[of _ "probeDev mcp tss t d e"]
              exI[of _ "ps @ [(t, t)]"]) (auto simp add: step)
    next
      case gt: False
      note pf = pred_facts[OF gt]
      have bt: "b \<le> t" using gt by simp
      from less.hyps[OF pf(1), of "tss\<lparr>bitrate := t\<rparr>" t "probeDev mcp tss t d e" "ps @ [(t, t)]"]
      obtain g' d' ps' where ih:
        "probeLoop mcp b (tss\<lparr>bitrate := t\<rparr>) (t - 1) t le (probeDev mcp tss t d e) e (ps @ [(t, t)])
           = Some (g', rb (min (t - 1) b), d', e, ps')"
        "set (ps @ [(t, t)]) \<subseteq> set ps'"
        "(rb (min (t - 1) b), rb (min (t - 1) b)) \<in> set ps'"
        "if \<exists>a. rb a = a \<and> b \<le> a \<and> a \<le> t - 1
            then rb g' = g' \<and> b \<le> g' \<and> (\<forall>a. rb a = a \<and> b \<le> a \<longrightarrow> g' \<le> a) \<and> (g', g') \<in> set ps'
            else g' = t" by blast
      have m: "rb (min (t - 1) b) = rb (min t b)" using pf(2) bt by (simp add: min_def)
      have ex: "\<exists>a. rb a = a \<and> b \<le> a \<and> a \<le> t" using True bt by auto
      have gprop: "rb g' = g' \<and> b \<le> g' \<and> (\<forall>a. rb a = a \<and> b \<le> a \<longrightarrow> g' \<le> a) \<and> (g', g') \<in> set ps'"
      proof (cases "\<exists>a. rb a = a \<and> b \<le> a \<and> a \<le> t - 1")
        case True
        then show ?thesis using ih(4) by simp
      next
        case none: False
        then have gt': "g' = t" using ih(4) by simp
        have "t \<le> a" if "rb a = a" "b \<le> a" for a
        proof (rule ccontr)
          assume "\<not> t \<le> a"
          then have "a \<le> t" "a \<noteq> t" by auto
          then have "a \<le> t - 1" using pf(3) by blast
          then show False using none that by blast
        qed
        then show ?thesis using gt' True bt ih(2) by auto
      qed
      show ?thesis
        using ih(1,2,3) gprop True gt bt ex unfolding m
        by (intro exI[of _ g'] exI[of _ d'] exI[of _ ps']) (simp add: step)
    qed
  qed
qed


lemma getNearest_eq:
  "getNearestCompatibleBitRate mcp lim b w =
     (case searchLoop mcp lim b w of
        None \<Rightarrow> None
      | Some (ge, le, d1, e1, ps) \<Rightarrow>
          Some (if ge - b < b - le then ge else le,
                validateOperation mcp (qs ''get bit rate'')
                  (fst (snd (configureSPISettings mcp (fst (getSPISettings mcp (mcp2210 w) (0, []))) d1 e1)))
                  (snd (snd (configureSPISettings mcp (fst (getSPISettings mcp (mcp2210 w) (0, []))) d1 e1)))
                  (w\<lparr>mcp2210 := fst (configureSPISettings mcp
                       (fst (getSPISettings mcp (mcp2210 w) (0, []))) d1 e1)\<rparr>)))"
  by (simp add: getNearestCompatibleBitRate_def searchLoop_def Let_def split_beta
           split: option.splits)

lemma probeLoop_error_exit:
  "fst e \<noteq> 0 \<Longrightarrow> probeLoop mcp b tss t g le d e ps = Some (g, le, d, e, ps)"
  by (subst probeLoop.simps) simp

lemma getNearest_returns_on_read_error:
  "fst (snd (snd (getSPISettings mcp (mcp2210 w) (0, [])))) \<noteq> 0 \<Longrightarrow>
   \<exists>r w'. getNearestCompatibleBitRate mcp lim b w = Some (r, w')"
  by (simp add: getNearest_eq searchLoop_def split_beta probeLoop_error_exit)

lemma floor_sim:
  assumes "\<And>x. rb x \<le> x" "\<And>x. rb (rb x) = rb x" "\<And>a x. rb a = a \<Longrightarrow> a \<le> x \<Longrightarrow> a \<le> rb x"
  shows "floor_channel (sim_mcp rb never never) rb"
  using assms
  by (simp add: floor_channel_def sim_mcp_def sim_read_def sim_write_def never_def tick_def)

lemma floor_steps: "floor_channel (sim_mcp rb_steps never never) rb_steps"
proof (rule floor_sim)
  show "rb_steps x \<le> x" for x by (simp add: rb_steps_def)
  show "rb_steps (rb_steps x) = rb_steps x" for x by (simp add: rb_steps_def)
  show "a \<le> rb_steps x" if "rb_steps a = a" "a \<le> x" for a x
    using that by (auto simp add: rb_steps_def split: if_splits)
qed

lemma floor_low: "floor_channel (sim_mcp rb_low never never) rb_low"
proof (rule floor_sim)
  show "rb_low x \<le> x" for x by (simp add: rb_low_def)
  show "rb_low (rb_low x) = rb_low x" for x by (simp add: rb_low_def)
  show "a \<le> rb_low x" if "rb_low a = a" "a \<le> x" for a x
    using that by (auto simp add: rb_low_def split: if_splits)
qed

lemma ev_mid:
  "map_option (\<lambda>(ge, le, d, e, ps). (ge, le, ps))
     (searchLoop (sim_mcp rb_steps never never) lim_ex 2500000 w_ex)
   = Some (3000000, 1000000,
       [(10000000, 3000000), (3000000, 3000000), (2999999, 1000000), (1000000, 1000000)])"
  by (simp add: searchLoop_def sim_defs probeLoop.simps rb_steps_def Let_def)

lemma ev_mid_r:
  "getNearestCompatibleBitRate (sim_mcp rb_steps never never) lim_ex 2500000 w_ex
   = Some (3000000, w_ex\<lparr>mcp2210 := dev_ex\<lparr>ops_done := 10\<rparr>\<rparr>)"
  by (simp add: getNearestCompatibleBitRate_def sim_defs probeLoop.simps rb_steps_def Let_def
        validateOperation_def)

lemma ev_wrap:
  "map_option (\<lambda>(ge, le, d, e, ps). (ge, le, ps))
     (searchLoop (sim_mcp rb_steps never never) lim_ex 1073741825 w_ex)
   = Some (12000000, 0, [(4, 0), (0, 0)])"
  by (simp add: searchLoop_def sim_defs probeLoop.simps rb_steps_def Let_def)

lemma ev_wrap_r:
  "map_option fst
     (getNearestCompatibleBitRate (sim_mcp rb_steps never never) lim_ex 1073741825 w_ex)
   = Some 0"
  by (simp add: getNearestCompatibleBitRate_def sim_defs probeLoop.simps rb_steps_def Let_def)

lemma ev_low:
  "map_option (\<lambda>(ge, le, d, e, ps). (ge, le, ps))
     (searchLoop (sim_mcp rb_low never never) lim_ex 11999999 w_ex)
   = Some (12000000, 1000, [(47999996, 1000), (1000, 1000)])"
  by (simp add: searchLoop_def sim_defs probeLoop.simps rb_low_def Let_def)

lemma ev_low_r:
  "map_option fst
     (getNearestCompatibleBitRate (sim_mcp rb_low never never) lim_ex 11999999 w_ex)
   = Some 12000000"
  by (simp add: getNearestCompatibleBitRate_def sim_defs probeLoop.simps rb_low_def Let_def)

lemma ev_fault:
  "getNearestCompatibleBitRate (sim_mcp rb_steps (at 2) never) lim_ex 2500000 w_ex
   = Some (1464, w_ex\<lparr>mcp2210 := dev_ex\<lparr>ops_done := 4\<rparr>, err := True,
        errmsg := msg_failed (qs ''get bit rate'') (qs ''I/O error'')\<rparr>)"
  by (simp add: getNearestCompatibleBitRate_def sim_defs probeLoop.simps rb_steps_def Let_def
      validateOperation_def chop_def replace_def qs_def newline_def msg_failed_def)

text \<open>
  Claim C1, as the code has it. For a channel that reports no error and reads back the
  greatest achievable bit rate at or below the one written, a requested bit rate whose
  fourfold does not overflow 32 bits, and a \<^verbatim>\<open>BITRATE_MAX\<close> that is itself
  achievable, the search returns; the value returned is the final
  \<^verbatim>\<open>nearestGreaterOrEqualBitrate\<close> or \<^verbatim>\<open>nearestLesserOrEqualBitrate\<close>, it is
  achievable, an iteration of the loop wrote it and read it back unchanged, and no
  achievable value at all (so none between the two candidates) is strictly closer to the
  requested bit rate.
\<close>

theorem getNearestCompatibleBitRate_nearest_achievable:
  assumes fc: "floor_channel mcp rb" and nb: "4 * unat b < 2 ^ 32"
    and mx: "rb (BITRATE_MAX lim) = BITRATE_MAX lim"
  shows "\<exists>r w' ge le d e ps.
           getNearestCompatibleBitRate mcp lim b w = Some (r, w') \<and>
           searchLoop mcp lim b w = Some (ge, le, d, e, ps) \<and>
           (r = ge \<or> r = le) \<and> rb r = r \<and> (r, r) \<in> set ps \<and>
           (\<forall>a. rb a = a \<longrightarrow> absdiff r b \<le> absdiff a b)"
proof -
  let ?M = "BITRATE_MAX lim"
  obtain s0 d0 where g0: "getSPISettings mcp (mcp2210 w) (0, []) = (s0, d0, (0, []))"
    using floor_channel_get[OF fc, of "mcp2210 w" "(0, [])"] by metis
  have u4: "unat (4 * b) = 4 * unat b"
    using nb by (simp add: unat_word_ariths)
  have b4: "b \<le> 4 * b" by (simp add: word_le_nat_alt u4)
  have m: "min (4 * b) b = b" using b4 by (simp add: min_def)
  from probeLoop_floor[OF fc, of "(0, [])" b s0 "4 * b" ?M "BITRATE_MIN lim" d0 "[]"]
  obtain g' d' ps' where pl:
    "probeLoop mcp b s0 (4 * b) ?M (BITRATE_MIN lim) d0 (0, []) [] = Some (g', rb b, d', (0, []), ps')"
    "(rb b, rb b) \<in> set ps'"
    "if \<exists>a. rb a = a \<and> b \<le> a \<and> a \<le> 4 * b
       then rb g' = g' \<and> b \<le> g' \<and> (\<forall>a. rb a = a \<and> b \<le> a \<longrightarrow> g' \<le> a) \<and> (g', g') \<in> set ps'
       else g' = ?M"
    unfolding m by auto
  let ?le = "rb b"
  let ?r = "if g' - b < b - ?le then g' else ?le"
  have sl: "searchLoop mcp lim b w = Some (g', ?le, d', (0, []), ps')"
    using pl(1) by (simp add: searchLoop_def g0)
  have gn: "\<exists>w'. getNearestCompatibleBitRate mcp lim b w = Some (?r, w')"
    by (simp add: getNearest_eq sl)
  have leb: "?le \<le> b" using floor_le[OF fc] .
  have ule: "unat (b - ?le) = unat b - unat ?le" using leb by (simp add: unat_sub)
  have lea: "rb ?le = ?le" using floor_idem[OF fc] .
  have below: "absdiff ?le b \<le> absdiff a b" if "rb a = a" "a \<le> b" for a
  proof -
    have "a \<le> ?le" using floor_greatest[OF fc that] .
    then show ?thesis using that(2) leb by (simp add: absdiff_def word_le_nat_alt)
  qed
  have props: "rb ?r = ?r \<and> (?r, ?r) \<in> set ps' \<and> (\<forall>a. rb a = a \<longrightarrow> absdiff ?r b \<le> absdiff a b)"
  proof (cases "\<exists>a. rb a = a \<and> b \<le> a \<and> a \<le> 4 * b")
    case True
    then have g: "rb g' = g'" "b \<le> g'" "\<And>a. rb a = a \<Longrightarrow> b \<le> a \<Longrightarrow> g' \<le> a" "(g', g') \<in> set ps'"
      using pl(3) by auto
    have ug: "unat (g' - b) = unat g' - unat b" using g(2) by (simp add: unat_sub)
    have above: "absdiff g' b \<le> absdiff a b" if "rb a = a" "\<not> a \<le> b" for a
    proof -
      have "b \<le> a" using that(2) by simp
      then have "g' \<le> a" using g(3) that(1) by blast
      then show ?thesis using that(2) g(2) by (auto simp add: absdiff_def word_le_nat_alt)
    qed
    have dg: "absdiff g' b = unat g' - unat b" using g(2) by (auto simp add: absdiff_def)
    have dl: "absdiff ?le b = unat b - unat ?le" using leb by (simp add: absdiff_def)
    have near: "absdiff ?r b \<le> absdiff a b" if "rb a = a" for a
    proof (cases "a \<le> b")
      case True
      then show ?thesis using below[OF that True] dg dl
        by (simp add: word_less_nat_alt ug ule)
    next
      case False
      then show ?thesis using above[OF that False] dg dl
        by (simp add: word_less_nat_alt ug ule)
    qed
    show ?thesis using g(1,4) lea pl(2) near by simp
  next
    case False
    then have gM: "g' = ?M" using pl(3) by simp
    have far: "4 * unat b < unat a" if "rb a = a" "\<not> a \<le> b" for a
    proof -
      have "\<not> a \<le> 4 * b" using False that by auto
      then show ?thesis by (simp add: word_le_nat_alt u4)
    qed
    have nl: "\<not> g' - b < b - ?le"
    proof (cases "b \<le> ?M")
      case True
      have "\<not> ?M \<le> 4 * b" using False mx True by blast
      then have "4 * unat b < unat ?M" by (simp add: word_le_nat_alt u4)
      moreover have "unat (?M - b) = unat ?M - unat b" using True by (simp add: unat_sub)
      ultimately show ?thesis unfolding gM by (simp add: word_less_nat_alt ule)
    next
      case False
      then have "unat ?M < unat b" by (simp add: word_le_nat_alt)
      then have "unat (?M - b) = unat ?M + 2 ^ 32 - unat b"
        by (simp add: unat_sub_if_size word_size)
      then show ?thesis using nb unfolding gM by (simp add: word_less_nat_alt ule)
    qed
    have near: "absdiff ?le b \<le> absdiff a b" if "rb a = a" for a
    proof (cases "a \<le> b")
      case True
      then show ?thesis using below[OF that True] by simp
    next
      case False
      then show ?thesis using far[OF that False] leb
        by (simp add: absdiff_def word_le_nat_alt)
    qed
    show ?thesis using nl lea pl(2) near by simp
  qed
  from gn obtain w' where "getNearestCompatibleBitRate mcp lim b w = Some (?r, w')" by blast
  then show ?thesis using sl props
    by (intro exI[of _ ?r] exI[of _ w'] exI[of _ g'] exI[of _ ?le] exI[of _ d']
          exI[of _ "(0, [])"] exI[of _ ps']) simp
qed

theorem getNearestCompatibleBitRate_nearest_achievable_witness:
  "floor_channel (sim_mcp rb_steps never never) rb_steps \<and>
   4 * unat (2500000 :: u32) < 2 ^ 32 \<and>
   rb_steps (BITRATE_MAX lim_ex) = BITRATE_MAX lim_ex \<and>
   (\<exists>r w' ge le d e ps.
      getNearestCompatibleBitRate (sim_mcp rb_steps never never) lim_ex 2500000 w_ex
        = Some (r, w') \<and>
      searchLoop (sim_mcp rb_steps never never) lim_ex 2500000 w_ex = Some (ge, le, d, e, ps) \<and>
      (r = ge \<or> r = le) \<and> rb_steps r = r \<and> (r, r) \<in> set ps \<and>
      (\<forall>a. rb_steps a = a \<longrightarrow> absdiff r 2500000 \<le> absdiff a 2500000)) \<and>
   map_option fst
     (getNearestCompatibleBitRate (sim_mcp rb_steps never never) lim_ex 2500000 w_ex)
     = Some 3000000"
proof -
  have h2: "4 * unat (2500000 :: u32) < 2 ^ 32"
    by simp
  have h3: "rb_steps (BITRATE_MAX lim_ex) = BITRATE_MAX lim_ex"
    by (simp add: lim_ex_def rb_steps_def)
  have r: "map_option fst
     (getNearestCompatibleBitRate (sim_mcp rb_steps never never) lim_ex 2500000 w_ex)
     = Some 3000000"
    by (simp add: ev_mid_r)
  show ?thesis
    using getNearestCompatibleBitRate_nearest_achievable[OF floor_steps h2 h3, of w_ex]
      floor_steps h2 h3 r by blast
qed

text \<open>
  The claim as stated fails in two ways. On a channel whose only achievable values are 0
  and 1000, with \<^verbatim>\<open>BITRATE_MAX\<close> 12000000, the request 11999999 returns 12000000:
  the initial value of \<^verbatim>\<open>nearestGreaterOrEqualBitrate\<close>, which no iteration
  wrote and which is not achievable. On a channel with achievable values 0, 1000000,
  3000000 and 12000000 the request 1073741825 starts the loop at 4 (the fourfold
  wraps around) and returns 0, although the achievable 3000000 lies between the final
  candidates 0 and 12000000 and is strictly closer.
\<close>

theorem getNearestCompatibleBitRate_nearest_counterexample:
  "floor_channel (sim_mcp rb_low never never) rb_low \<and>
   map_option fst
      (getNearestCompatibleBitRate (sim_mcp rb_low never never) lim_ex 11999999 w_ex)
     = Some 12000000 \<and>
   rb_low 12000000 \<noteq> 12000000 \<and>
   map_option (\<lambda>(ge, le, d, e, ps). (ge, le, ps))
      (searchLoop (sim_mcp rb_low never never) lim_ex 11999999 w_ex)
     = Some (12000000, 1000, [(47999996, 1000), (1000, 1000)]) \<and>
   (12000000, 12000000) \<notin> set [(47999996, 1000), (1000, 1000 :: u32)] \<and>
   floor_channel (sim_mcp rb_steps never never) rb_steps \<and>
   map_option fst
      (getNearestCompatibleBitRate (sim_mcp rb_steps never never) lim_ex 1073741825 w_ex)
     = Some 0 \<and>
   map_option (\<lambda>(ge, le, d, e, ps). (ge, le, ps))
      (searchLoop (sim_mcp rb_steps never never) lim_ex 1073741825 w_ex)
     = Some (12000000, 0, [(4, 0), (0, 0)]) \<and>
   rb_steps 3000000 = 3000000 \<and> (0 :: u32) \<le> 3000000 \<and> (3000000 :: u32) \<le> 12000000 \<and>
   absdiff 3000000 1073741825 < absdiff 0 1073741825"
  using floor_low floor_steps ev_low ev_low_r ev_wrap ev_wrap_r
  by (simp add: rb_low_def rb_steps_def absdiff_def)

lemma searchLoop_floor: "floor_channel mcp rb \<Longrightarrow> searchLoop mcp lim b w \<noteq> None"
proof -
  assume fc: "floor_channel mcp rb"
  obtain s0 d0 where g0: "getSPISettings mcp (mcp2210 w) (0, []) = (s0, d0, (0, []))"
    using floor_channel_get[OF fc, of "mcp2210 w" "(0, [])"] by metis
  from probeLoop_floor[OF fc, of "(0, [])" b s0 "4 * b" "BITRATE_MAX lim" "BITRATE_MIN lim" d0 "[]"]
  show ?thesis by (auto simp add: searchLoop_def g0)
qed

lemma ev_loop_fault:
  "searchLoop (sim_mcp rb_steps (at 2) never) lim_ex 2500000 w_ex
     = Some (12000000, 1464,
         dev_ex\<lparr>vol_spi := (vol_spi dev_ex)\<lparr>bitrate := 3000000\<rparr>, ops_done := 3\<rparr>,
         (1, qs ''I/O error'' @ [newline]), [(10000000, 0)])"
  by (simp add: searchLoop_def sim_defs probeLoop.simps rb_steps_def Let_def)

lemma ev_snapshot_fault:
  "map_option (\<lambda>(r, w'). bitrate (vol_spi (mcp2210 w')))
     (getNearestCompatibleBitRate (sim_mcp rb_steps (at 0) never) lim_ex 2500000 w_ex) = Some 0"
  by (simp add: getNearestCompatibleBitRate_def sim_defs probeLoop.simps rb_steps_def Let_def
        validateOperation_def)

lemma ev_restore_fault:
  "map_option (\<lambda>(r, w'). bitrate (vol_spi (mcp2210 w')))
     (getNearestCompatibleBitRate (sim_mcp rb_steps never (since 3)) lim_ex 2500000 w_ex)
   = Some 3000000"
  by (simp add: getNearestCompatibleBitRate_def sim_defs probeLoop.simps rb_steps_def Let_def
        validateOperation_def)

text \<open>
  Claim C2, as the code has it. The snapshot is what the first
  \<^verbatim>\<open>getSPISettings\<close> call returns. The probing loop exits at once when a transport
  error is pending, and always exits on a channel that reports no error and reads back
  the greatest achievable bit rate at or below the one written. Whenever the loop
  exits, with or without a transport error, the search returns, and the device it leaves
  is the device a \<^verbatim>\<open>configureSPISettings\<close> call produced from exactly the snapshot:
  the snapshot is written back as the last device operation. When moreover the snapshot
  read returned the volatile SPI settings \<open>vol\<close> the device held, and a write of these
  settings leaves the device holding them, the settings on exit are those on entry.
\<close>

theorem getNearestCompatibleBitRate_restores_snapshot:
  "(fst e \<noteq> 0 \<longrightarrow> probeLoop mcp b tss t g l d e ps = Some (g, l, d, e, ps)) \<and>
   (floor_channel mcp rb \<longrightarrow> searchLoop mcp lim b w \<noteq> None) \<and>
   (searchLoop mcp lim b w = Some (ge, le, d1, e1, ps1) \<longrightarrow>
      (\<exists>r w'. getNearestCompatibleBitRate mcp lim b w = Some (r, w') \<and>
         mcp2210 w' = fst (configureSPISettings mcp
                             (fst (getSPISettings mcp (mcp2210 w) (0, []))) d1 e1))) \<and>
   (searchLoop mcp lim b w \<noteq> None \<and>
    fst (getSPISettings mcp (mcp2210 w) (0, [])) = vol (mcp2210 w) \<and>
    (\<forall>d e. vol (fst (configureSPISettings mcp (vol (mcp2210 w)) d e)) = vol (mcp2210 w)) \<longrightarrow>
      (\<exists>r w'. getNearestCompatibleBitRate mcp lim b w = Some (r, w') \<and>
         vol (mcp2210 w') = vol (mcp2210 w)))"
proof (intro conjI impI)
  show "probeLoop mcp b tss t g l d e ps = Some (g, l, d, e, ps)" if "fst e \<noteq> 0"
    using that by (rule probeLoop_error_exit)
  show "searchLoop mcp lim b w \<noteq> None" if "floor_channel mcp rb"
    using that by (rule searchLoop_floor)
  show "\<exists>r w'. getNearestCompatibleBitRate mcp lim b w = Some (r, w') \<and>
         mcp2210 w' = fst (configureSPISettings mcp
                             (fst (getSPISettings mcp (mcp2210 w) (0, []))) d1 e1)"
    if "searchLoop mcp lim b w = Some (ge, le, d1, e1, ps1)"
    using that by (simp add: getNearest_eq validateOperation_def Let_def)
  show "\<exists>r w'. getNearestCompatibleBitRate mcp lim b w = Some (r, w') \<and>
         vol (mcp2210 w') = vol (mcp2210 w)"
    if h: "searchLoop mcp lim b w \<noteq> None \<and>
       fst (getSPISettings mcp (mcp2210 w) (0, [])) = vol (mcp2210 w) \<and>
       (\<forall>d e. vol (fst (configureSPISettings mcp (vol (mcp2210 w)) d e)) = vol (mcp2210 w))"
  proof -
    from h obtain ge le d1 e1 ps1 where s: "searchLoop mcp lim b w = Some (ge, le, d1, e1, ps1)"
      by (cases "searchLoop mcp lim b w") auto
    from h have all: "\<forall>d e. vol (fst (configureSPISettings mcp (vol (mcp2210 w)) d e))
                        = vol (mcp2210 w)"
      by (rule conjunct2[THEN conjunct2])
    have st: "vol (fst (configureSPISettings mcp (vol (mcp2210 w)) d1 e1)) = vol (mcp2210 w)"
      by (rule all[rule_format])
    from h have rd: "fst (getSPISettings mcp (mcp2210 w) (0, [])) = vol (mcp2210 w)"
      by (rule conjunct2[THEN conjunct1])
    show ?thesis
      using s st rd by (simp add: getNearest_eq validateOperation_def Let_def)
  qed
qed

theorem getNearestCompatibleBitRate_restores_snapshot_witness:
  "searchLoop (sim_mcp rb_steps (at 2) never) lim_ex 2500000 w_ex
     = Some (12000000, 1464,
         dev_ex\<lparr>vol_spi := (vol_spi dev_ex)\<lparr>bitrate := 3000000\<rparr>, ops_done := 3\<rparr>,
         (1, qs ''I/O error'' @ [newline]), [(10000000, 0)]) \<and>
   fst (getSPISettings (sim_mcp rb_steps (at 2) never) (mcp2210 w_ex) (0, [])) = vol_spi (mcp2210 w_ex) \<and>
   (\<forall>d e. vol_spi (fst (configureSPISettings (sim_mcp rb_steps (at 2) never)
              (vol_spi (mcp2210 w_ex)) d e)) = vol_spi (mcp2210 w_ex)) \<and>
   (\<exists>r w'. getNearestCompatibleBitRate (sim_mcp rb_steps (at 2) never) lim_ex 2500000 w_ex
              = Some (r, w') \<and> err w' \<and>
            mcp2210 w' = fst (configureSPISettings (sim_mcp rb_steps (at 2) never)
               (vol_spi (mcp2210 w_ex))
               (dev_ex\<lparr>vol_spi := (vol_spi dev_ex)\<lparr>bitrate := 3000000\<rparr>, ops_done := 3\<rparr>)
               (1, qs ''I/O error'' @ [newline])) \<and>
            vol_spi (mcp2210 w') = vol_spi (mcp2210 w_ex)) \<and>
   floor_channel (sim_mcp rb_steps never never) rb_steps \<and>
   (\<exists>r w'. getNearestCompatibleBitRate (sim_mcp rb_steps never never) lim_ex 2500000 w_ex
              = Some (r, w') \<and> vol_spi (mcp2210 w') = vol_spi (mcp2210 w_ex))"
proof -
  let ?m = "sim_mcp rb_steps (at 2) never"
  let ?n = "sim_mcp rb_steps never never"
  have snap: "fst (getSPISettings ?m (mcp2210 w_ex) (0, [])) = vol_spi (mcp2210 w_ex)"
    by (simp add: sim_defs)
  have store: "\<forall>d e. vol_spi (fst (configureSPISettings ?m (vol_spi (mcp2210 w_ex)) d e))
                 = vol_spi (mcp2210 w_ex)"
    by (simp add: sim_defs rb_steps_def)
  have snap': "fst (getSPISettings ?n (mcp2210 w_ex) (0, [])) = vol_spi (mcp2210 w_ex)"
    by (simp add: sim_defs)
  have store': "\<forall>d e. vol_spi (fst (configureSPISettings ?n (vol_spi (mcp2210 w_ex)) d e))
                 = vol_spi (mcp2210 w_ex)"
    by (simp add: sim_defs rb_steps_def)
  note t = getNearestCompatibleBitRate_restores_snapshot[of "(0, [])" ?m 2500000 "vol_spi dev_ex" 0 0 0 dev_ex "[]" rb_steps lim_ex w_ex
              12000000 1464 "dev_ex\<lparr>vol_spi := (vol_spi dev_ex)\<lparr>bitrate := 3000000\<rparr>, ops_done := 3\<rparr>"
              "(1, qs ''I/O error'' @ [newline])" "[(10000000, 0)]" vol_spi]
  note t' = getNearestCompatibleBitRate_restores_snapshot[of "(0, [])" ?n 2500000 "vol_spi dev_ex" 0 0 0 dev_ex "[]" rb_steps lim_ex w_ex
              0 0 dev_ex "(0, [])" "[]" vol_spi]
  have a: "\<exists>r w'. getNearestCompatibleBitRate ?m lim_ex 2500000 w_ex = Some (r, w') \<and> err w' \<and>
            mcp2210 w' = fst (configureSPISettings ?m (vol_spi (mcp2210 w_ex))
               (dev_ex\<lparr>vol_spi := (vol_spi dev_ex)\<lparr>bitrate := 3000000\<rparr>, ops_done := 3\<rparr>)
               (1, qs ''I/O error'' @ [newline])) \<and>
            vol_spi (mcp2210 w') = vol_spi (mcp2210 w_ex)"
    using t ev_loop_fault snap store ev_fault by auto
  have b: "\<exists>r w'. getNearestCompatibleBitRate ?n lim_ex 2500000 w_ex = Some (r, w') \<and>
            vol_spi (mcp2210 w') = vol_spi (mcp2210 w_ex)"
    using t' floor_steps snap' store' by blast
  show ?thesis
    using ev_loop_fault snap store a floor_steps b by blast
qed

text \<open>
  The claim as stated fails when a transport error hits the snapshot read or the
  restoring write. With the first read failing, the device enters with bit rate 1000000
  and leaves with 0: the value the failed read returned is written to it. With every
  write from the fourth call on failing, the snapshot holds 1000000 and the device
  leaves with 3000000, the rate of the last probe that was stored.
\<close>

theorem getNearestCompatibleBitRate_restore_counterexample:
  "bitrate (vol_spi (mcp2210 w_ex)) = 1000000 \<and>
   fst (snd (snd (getSPISettings (sim_mcp rb_steps (at 0) never) (mcp2210 w_ex) (0, [])))) = 1 \<and>
   map_option (\<lambda>(r, w'). bitrate (vol_spi (mcp2210 w')))
     (getNearestCompatibleBitRate (sim_mcp rb_steps (at 0) never) lim_ex 2500000 w_ex) = Some 0 \<and>
   bitrate (fst (getSPISettings (sim_mcp rb_steps never (since 3)) (mcp2210 w_ex) (0, []))) = 1000000 \<and>
   map_option (\<lambda>(r, w'). bitrate (vol_spi (mcp2210 w')))
     (getNearestCompatibleBitRate (sim_mcp rb_steps never (since 3)) lim_ex 2500000 w_ex)
     = Some 3000000"
  using ev_snapshot_fault ev_restore_fault by (simp add: sim_defs)

text \<open>
  Claim C3, as the code has it. The value returned is
  \<^verbatim>\<open>nearestGreaterOrEqualBitrate\<close> exactly when the 32-bit difference
  \<^verbatim>\<open>nearestGreaterOrEqualBitrate - bitrate\<close> is strictly less than the 32-bit
  difference \<^verbatim>\<open>bitrate - nearestLesserOrEqualBitrate\<close>, and
  \<^verbatim>\<open>nearestLesserOrEqualBitrate\<close> otherwise. When the requested bit rate lies
  between the two candidates, the differences are the distances: the candidate with the
  smaller distance is returned, and a tie resolves to
  \<^verbatim>\<open>nearestLesserOrEqualBitrate\<close>.
\<close>

theorem getNearestCompatibleBitRate_selection:
  assumes "getNearestCompatibleBitRate mcp lim b w = Some (r, w')"
  shows "\<exists>ge le d e ps. searchLoop mcp lim b w = Some (ge, le, d, e, ps) \<and>
           r = (if ge - b < b - le then ge else le) \<and>
           (le \<le> b \<and> b \<le> ge \<longrightarrow> r = (if absdiff ge b < absdiff le b then ge else le))"
proof -
  from assms obtain ge le d e ps where
    s: "searchLoop mcp lim b w = Some (ge, le, d, e, ps)" and
    r: "r = (if ge - b < b - le then ge else le)"
    by (auto simp add: getNearest_eq split: option.splits)
  have "r = (if absdiff ge b < absdiff le b then ge else le)" if "le \<le> b" "b \<le> ge"
  proof -
    have 1: "unat (ge - b) = unat ge - unat b" using that(2) by (simp add: unat_sub)
    have 2: "unat (b - le) = unat b - unat le" using that(1) by (simp add: unat_sub)
    have 3: "absdiff le b = unat b - unat le" using that(1) by (simp add: absdiff_def)
    have 4: "absdiff ge b = unat ge - unat b"
      using that(2) by (auto simp add: absdiff_def)
    show ?thesis unfolding r 3 4 by (simp add: word_less_nat_alt 1 2)
  qed
  then show ?thesis using s r by blast
qed

theorem getNearestCompatibleBitRate_selection_witness:
  "getNearestCompatibleBitRate (sim_mcp rb_steps never never) lim_ex 2500000 w_ex
     = Some (3000000, w_ex\<lparr>mcp2210 := dev_ex\<lparr>ops_done := 10\<rparr>\<rparr>) \<and>
   map_option (\<lambda>(ge, le, d, e, ps). (ge, le))
     (searchLoop (sim_mcp rb_steps never never) lim_ex 2500000 w_ex)
     = Some (3000000, 1000000) \<and>
   (1000000 :: u32) \<le> 2500000 \<and> (2500000 :: u32) \<le> 3000000 \<and>
   absdiff 3000000 2500000 < absdiff 1000000 2500000"
proof -
  have s: "map_option (\<lambda>(ge, le, d, e, ps). (ge, le))
     (searchLoop (sim_mcp rb_steps never never) lim_ex 2500000 w_ex)
     = Some (3000000, 1000000)"
    using ev_mid by (auto simp add: map_option_case split: option.splits)
  show ?thesis
    using getNearestCompatibleBitRate_selection[OF ev_mid_r] ev_mid_r s
    by (simp add: absdiff_def)
qed

text \<open>
  The claim as stated fails when the requested bit rate is not between the candidates:
  the 32-bit differences wrap around and are no longer the distances. The request
  1073741825 ends the loop with the candidates 12000000 and 0; 12000000 is the closer
  one, and 0 is returned.
\<close>

theorem getNearestCompatibleBitRate_selection_counterexample:
  "map_option (\<lambda>(ge, le, d, e, ps). (ge, le))
     (searchLoop (sim_mcp rb_steps never never) lim_ex 1073741825 w_ex)
     = Some (12000000, 0) \<and>
   absdiff 12000000 1073741825 < absdiff 0 1073741825 \<and>
   map_option fst
     (getNearestCompatibleBitRate (sim_mcp rb_steps never never) lim_ex 1073741825 w_ex)
     = Some 0"
proof -
  have s: "map_option (\<lambda>(ge, le, d, e, ps). (ge, le))
     (searchLoop (sim_mcp rb_steps never never) lim_ex 1073741825 w_ex)
     = Some (12000000, 0)"
    using ev_wrap by (auto simp add: map_option_case split: option.splits)
  show ?thesis
    using s ev_wrap_r by (simp add: absdiff_def)
qed

end
